theory Spec2Isabelle
  imports Main "HOL-Library.AList"
begin

section \<open>Data model\<close>

text \<open>
  The script \<^verbatim>\<open>check-tx.py\<close> talks to three collaborators: the operators' JSON-RPC
  endpoints (through web3 and a raw POST of \<^verbatim>\<open>neon_getTransactionReceipt\<close>), the Solana
  RPC client, and the local \<^verbatim>\<open>logs\<close> directory. What they answer is a parameter of the
  model, the record \<open>world\<close>; what the script does to them is the list of events it
  returns, in program order. Transport failures (a refused connection, a full disk) are
  exceptions of the libraries that the script never catches; they are not part of the
  model, which describes the runs in which every collaborator answers.
\<close>

datatype error = TypeError | AttributeError | ValueError | ZeroDivisionError
  | OverflowError | IndexError | KeyError

datatype outcome = Returned | Exited nat | Raised error

record sol_tx_ref =
  solanaTransactionIsSuccess :: bool
  solanaTransactionSignature :: string

record receipt =
  status :: string
  gasUsed :: string
  solanaTransactions :: "sol_tx_ref list"

text \<open>
  The JSON body answered to \<^verbatim>\<open>neon_getTransactionReceipt\<close>: without a \<^verbatim>\<open>result\<close> key
  (the text is what \<^verbatim>\<open>print\<close> shows of the body), with \<^verbatim>\<open>"result": null\<close>, or with a
  receipt object.
\<close>

datatype rpc_response = NoResult string | NullResult | Result receipt

record eth_tx =
  gas :: int

text \<open>
  What \<^verbatim>\<open>sol_client.get_transaction\<close> gives: \<^verbatim>\<open>None\<close>, a response whose \<^verbatim>\<open>value\<close> is
  \<^verbatim>\<open>None\<close>, a value whose \<^verbatim>\<open>meta\<close> is \<^verbatim>\<open>None\<close>, or the \<^verbatim>\<open>log_messages\<close> of the meta
  (an optional list of lines).
\<close>

datatype sol_response = NoResponse | NoValue | NoMeta | LogMessages "string list option"

record world =
  eth_get_transaction :: "string \<Rightarrow> string \<Rightarrow> eth_tx option"
  eth_get_transaction_receipt :: "string \<Rightarrow> string \<Rightarrow> bool"
  neon_getTransactionReceipt :: "string \<Rightarrow> string \<Rightarrow> rpc_response"
  sol_get_transaction :: "string \<Rightarrow> string \<Rightarrow> sol_response"
  signature_from_string :: "string \<Rightarrow> bool"
  logs_dir_exists :: bool
  logs_dir_files :: "(string \<times> string) list"

text \<open>
  \<open>eth_get_transaction w url h\<close> is the transaction the endpoint \<open>url\<close> knows for the hash
  \<open>h\<close>, \<open>eth_get_transaction_receipt w url h\<close> tells whether it has a receipt (the script
  only compares the receipt with \<^verbatim>\<open>None\<close>), \<open>signature_from_string w s\<close> whether
  \<^verbatim>\<open>Signature.from_string\<close> accepts \<open>s\<close> (it raises \<^verbatim>\<open>ValueError\<close> otherwise).
  \<open>logs_dir_files\<close> lists the files of the \<^verbatim>\<open>logs\<close> directory, path and content, in the
  order in which the operating system enumerates them.
\<close>

datatype event =
    Print string
  | PrintGas int int
  | EthGetTransaction string string
  | EthGetTransactionReceipt string string
  | NeonGetTransactionReceipt string string
  | SolGetTransaction string string
  | WriteFile string string
  | Mkdir string


fun is_sol_lookup :: "event \<Rightarrow> bool" where
  "is_sol_lookup (SolGetTransaction u s) = True"
| "is_sol_lookup e = False"

fun is_file_write :: "event \<Rightarrow> bool" where
  "is_file_write (WriteFile n c) = True"
| "is_file_write e = False"

section \<open>Library functions the script calls\<close>

definition is_hex_digit :: "char \<Rightarrow> bool" where
  "is_hex_digit c = (c \<in> set ''0123456789abcdefABCDEF'')"

text \<open>
  \<^verbatim>\<open>eth_utils.is_hex\<close> and \<^verbatim>\<open>hexbytes.HexBytes\<close> are libraries outside the repository.
  Both read a text as hexadecimal with an optional prefix \<^verbatim>\<open>0x\<close> or \<^verbatim>\<open>0X\<close>:
  \<^verbatim>\<open>is_hex\<close> is a full match of \<^verbatim>\<open>(0[xX])?[0-9a-fA-F]*\<close> on a non-empty text, and
  \<^verbatim>\<open>HexBytes\<close> strips the prefix and raises \<^verbatim>\<open>ValueError\<close> on a character that is no
  hexadecimal digit.
\<close>

fun hex_text :: "string \<Rightarrow> bool" where
  "hex_text (c0 # c1 # cs) =
     (if c0 = CHR ''0'' \<and> (c1 = CHR ''x'' \<or> c1 = CHR ''X'') then list_all is_hex_digit cs
      else list_all is_hex_digit (c0 # c1 # cs))"
| "hex_text cs = list_all is_hex_digit cs"


text \<open>Python's \<^verbatim>\<open>int(s, 16)\<close> on an ASCII text; \<open>None\<close> is \<^verbatim>\<open>ValueError\<close>.\<close>

definition py_isspace :: "char \<Rightarrow> bool" where
  "py_isspace c = (c \<in> set [CHR 0x20, CHR 0x09, CHR 0x0A, CHR 0x0B, CHR 0x0C, CHR 0x0D,
     CHR 0x1C, CHR 0x1D, CHR 0x1E, CHR 0x1F])"

definition hex_digit_value :: "char \<Rightarrow> int" where
  "hex_digit_value c =
     (let n = int (of_char c) in
      if 48 \<le> n \<and> n \<le> 57 then n - 48
      else if 97 \<le> n \<and> n \<le> 102 then n - 87
      else n - 55)"

fun underscores_ok :: "string \<Rightarrow> bool" where
  "underscores_ok [] = True"
| "underscores_ok [c] = (c \<noteq> CHR ''_'')"
| "underscores_ok (c # d # cs) =
     (\<not> (c = CHR ''_'' \<and> d = CHR ''_'') \<and> underscores_ok (d # cs))"

definition strip_sign :: "string \<Rightarrow> bool \<times> string" where
  "strip_sign s =
     (case s of
        c # cs \<Rightarrow> (if c = CHR ''-'' then (True, cs)
                   else if c = CHR ''+'' then (False, cs) else (False, s))
      | [] \<Rightarrow> (False, s))"

fun strip_0x :: "string \<Rightarrow> string" where
  "strip_0x (c0 # c1 # cs) =
     (if c0 = CHR ''0'' \<and> (c1 = CHR ''x'' \<or> c1 = CHR ''X'')
      then (case cs of c # cs' \<Rightarrow> (if c = CHR ''_'' then cs' else cs) | [] \<Rightarrow> cs)
      else c0 # c1 # cs)"
| "strip_0x cs = cs"

definition py_int16 :: "string \<Rightarrow> int option" where
  "py_int16 s =
     (let (neg, t) = strip_sign (dropWhile py_isspace s);
          u = strip_0x t;
          body = takeWhile (\<lambda>c. is_hex_digit c \<or> c = CHR ''_'') u;
          rest = dropWhile (\<lambda>c. is_hex_digit c \<or> c = CHR ''_'') u;
          ds = filter is_hex_digit body;
          v = foldl (\<lambda>a c. 16 * a + hex_digit_value c) 0 ds
      in if ds = [] \<or> hd body = CHR ''_'' \<or> \<not> underscores_ok body \<or> \<not> list_all py_isspace rest
         then None
         else Some (if neg then - v else v))"

text \<open>
  \<^verbatim>\<open>gas_used / gas\<close> is Python's true division of two integers: it raises
  \<^verbatim>\<open>ZeroDivisionError\<close> on a zero divisor and \<^verbatim>\<open>OverflowError\<close> when the quotient,
  rounded to the nearest double, is beyond the largest one.
\<close>

definition true_div_overflows :: "int \<Rightarrow> int \<Rightarrow> bool" where
  "true_div_overflows a b = ((2 ^ 1024 - 2 ^ 970) * \<bar>b\<bar> \<le> \<bar>a\<bar>)"

text \<open>\<^verbatim>\<open>str\<close> of a length, in decimal.\<close>

fun str_nat :: "nat \<Rightarrow> string" where
  "str_nat n =
     (if n < 10 then [char_of (48 + n)]
      else str_nat (n div 10) @ [char_of (48 + n mod 10)])"

declare str_nat.simps [simp del]

text \<open>\<^verbatim>\<open>"\n".join(logs)\<close>\<close>

fun join_lines :: "string list \<Rightarrow> string" where
  "join_lines [] = []"
| "join_lines [l] = l"
| "join_lines (l # m # ls) = l @ [CHR 0x0A] @ join_lines (m # ls)"

section \<open>The Cross-Chain Debugger\<close>

text \<open>
  Lines 58 to 69 of \<^verbatim>\<open>debug_transaction\<close>: the loop over the signatures of the failed
  Solana transactions. \<open>reasons\<close> is the dictionary of the source, an association list in
  insertion order. The loop ends with the dictionary (\<open>Inr\<close>), or leaves the function
  early (\<open>Inl\<close>): by the \<^verbatim>\<open>return\<close> of line 62 or by an exception.
\<close>

fun lookup_loop ::
  "world \<Rightarrow> string \<Rightarrow> string \<Rightarrow> string list \<Rightarrow> (string \<times> string) list
     \<Rightarrow> event list \<times> (outcome + (string \<times> string) list)" where
  "lookup_loop w tx_hash solana_url [] reasons = ([], Inr reasons)"
| "lookup_loop w tx_hash solana_url (failed_sol_tx # rest) reasons =
     (if \<not> signature_from_string w failed_sol_tx then ([], Inl (Raised ValueError))
      else
        (case sol_get_transaction w solana_url failed_sol_tx of
           NoResponse \<Rightarrow>
             ([SolGetTransaction solana_url failed_sol_tx,
               Print (''Transaction '' @ tx_hash
                        @ '' is failed but no failed solana transaction found'')],
              Inl Returned)
         | NoValue \<Rightarrow>
             ([SolGetTransaction solana_url failed_sol_tx,
               Print (''Transaction '' @ tx_hash
                        @ '' is failed but no failed solana transaction found'')],
              Inl Returned)
         | NoMeta \<Rightarrow>
             ([SolGetTransaction solana_url failed_sol_tx], Inl (Raised AttributeError))
         | LogMessages None \<Rightarrow>
             ([SolGetTransaction solana_url failed_sol_tx], Inl (Raised TypeError))
         | LogMessages (Some logs) \<Rightarrow>
             (if logs = [] then
                ([SolGetTransaction solana_url failed_sol_tx], Inl (Raised IndexError))
              else
                (let (evs, r) =
                       lookup_loop w tx_hash solana_url rest
                         (AList.update failed_sol_tx (last logs) reasons)
                 in (SolGetTransaction solana_url failed_sol_tx
                       # WriteFile (''logs/'' @ failed_sol_tx @ ''.log'') (join_lines logs)
                       # evs, r)))))"

text \<open>
  Lines 47 to 75: what the debugger does for a failed transaction, after the top-level
  report. After the loop the name \<^verbatim>\<open>failed_sol_tx\<close> is bound to the last signature the
  loop visited, and line 71 prints it.
\<close>

definition failed_signatures :: "receipt \<Rightarrow> string list" where
  "failed_signatures tx_info =
     map solanaTransactionSignature
       (filter (\<lambda>sol_tx. solanaTransactionIsSuccess sol_tx = False)
          (solanaTransactions tx_info))"

definition debug_failed ::
  "world \<Rightarrow> string \<Rightarrow> string \<Rightarrow> receipt \<Rightarrow> event list \<times> outcome" where
  "debug_failed w tx_hash solana_url tx_info =
     (let failed_sol_tx = failed_signatures tx_info in
      if length failed_sol_tx = 0 then
        ([Print (''Transaction '' @ tx_hash
                   @ '' is failed but no failed solana transaction found'')],
         Returned)
      else
        (case lookup_loop w tx_hash solana_url failed_sol_tx [] of
           (evs, Inl out) \<Rightarrow>
             (Print (''Solana failed transactions: '' @ str_nat (length failed_sol_tx))
                # evs, out)
         | (evs, Inr reasons) \<Rightarrow>
             (Print (''Solana failed transactions: '' @ str_nat (length failed_sol_tx))
                # evs
                @ [Print (''Failed Solana transaction: '' @ last failed_sol_tx),
                   Print ''Reasons:'']
                @ map (\<lambda>(tx, reason). Print (''    '' @ tx @ '': '' @ reason)) reasons
                @ [Print (''Full log saved in '' @ [CHR 0x27] @ ''logs'' @ [CHR 0x27]
                            @ '' folder'')],
              Returned)))"

text \<open>The whole of \<^verbatim>\<open>debug_transaction\<close>, lines 23 to 75.\<close>

definition debug_transaction ::
  "world \<Rightarrow> string \<Rightarrow> string \<Rightarrow> string \<Rightarrow> event list \<times> outcome" where
  "debug_transaction w tx_hash operator_url solana_url =
     (case neon_getTransactionReceipt w operator_url tx_hash of
        NoResult body \<Rightarrow>
          ([NeonGetTransactionReceipt operator_url tx_hash,
            Print (''Got a problem with transaction info:  '' @ body)], Returned)
      | NullResult \<Rightarrow>
          ([NeonGetTransactionReceipt operator_url tx_hash], Raised TypeError)
      | Result tx_info \<Rightarrow>
          (let st = (if status tx_info = ''0x0'' then ''Failed'' else ''Success'') in
           if \<not> hex_text tx_hash then
             ([NeonGetTransactionReceipt operator_url tx_hash], Raised ValueError)
           else
             (case eth_get_transaction w operator_url tx_hash of
                None \<Rightarrow>
                  ([NeonGetTransactionReceipt operator_url tx_hash,
                    EthGetTransaction operator_url tx_hash], Raised AttributeError)
              | Some tx \<Rightarrow>
                  (case py_int16 (gasUsed tx_info) of
                     None \<Rightarrow>
                       ([NeonGetTransactionReceipt operator_url tx_hash,
                         EthGetTransaction operator_url tx_hash], Raised ValueError)
                   | Some gas_used \<Rightarrow>
                       (if gas tx = 0 then
                          ([NeonGetTransactionReceipt operator_url tx_hash,
                            EthGetTransaction operator_url tx_hash,
                            Print (''Status: '' @ st)], Raised ZeroDivisionError)
                        else if true_div_overflows gas_used (gas tx) then
                          ([NeonGetTransactionReceipt operator_url tx_hash,
                            EthGetTransaction operator_url tx_hash,
                            Print (''Status: '' @ st)], Raised OverflowError)
                        else
                          (let report =
                                 [NeonGetTransactionReceipt operator_url tx_hash,
                                  EthGetTransaction operator_url tx_hash,
                                  Print (''Status: '' @ st),
                                  PrintGas (gas tx) gas_used,
                                  Print (''Solana transactions: ''
                                           @ str_nat (length (solanaTransactions tx_info)))]
                           in if st = ''Success'' then (report, Returned)
                              else
                                (let (evs, out) = debug_failed w tx_hash solana_url tx_info
                                 in (report @ evs, out))))))))"

section \<open>The existence checks and the main script\<close>

record config =
  rpc :: "(string \<times> string) list"
  solana :: "(string \<times> string) list"








definition print_logs :: "(string \<times> string) list \<Rightarrow> event list" where
  "print_logs files =
     concat (map (\<lambda>(log, content). [Print (''---- Log from file: '' @ log), Print content])
               files)"



section \<open>Reading the trace\<close>


definition log_path :: "string \<Rightarrow> string" where
  "log_path s = ''logs/'' @ s @ ''.log''"





fun debugger_urls :: "event list \<Rightarrow> string list" where
  "debugger_urls [] = []"
| "debugger_urls (NeonGetTransactionReceipt url h # evs) = url # debugger_urls evs"
| "debugger_urls (e # evs) = debugger_urls evs"

section \<open>Concrete inputs\<close>

text \<open>
  A small world on which the theorems below are instantiated: every endpoint knows the
  transaction (with gas estimate \<open>g\<close>) and its receipt, the extended receipt is \<open>resp\<close>,
  and the Solana node knows two transactions, \<open>A\<close> and \<open>B\<close>, with two log lines each.
\<close>

definition example_logs :: "string \<Rightarrow> sol_response" where
  "example_logs s =
     (if s = ''A'' then
        LogMessages (Some [''Program log: start'', ''Program failed: custom error 0x1''])
      else if s = ''B'' then
        LogMessages (Some [''Program log: transfer'', ''insufficient funds''])
      else NoResponse)"

definition example_world :: "rpc_response \<Rightarrow> int \<Rightarrow> world" where
  "example_world resp g =
     \<lparr> eth_get_transaction = (\<lambda>url h. Some \<lparr> gas = g \<rparr>),
       eth_get_transaction_receipt = (\<lambda>url h. True),
       neon_getTransactionReceipt = (\<lambda>url h. resp),
       sol_get_transaction = (\<lambda>url s. example_logs s),
       signature_from_string = (\<lambda>s. True),
       logs_dir_exists = False,
       logs_dir_files = [] \<rparr>"

definition example_receipt :: "string \<Rightarrow> sol_tx_ref list \<Rightarrow> receipt" where
  "example_receipt st txs = \<lparr> status = st, gasUsed = ''0x5208'', solanaTransactions = txs \<rparr>"

definition example_hash :: string where
  "example_hash = ''0x00000000000000000000000000000000000000000000000000000000000000ab''"

definition example_failed_receipt :: receipt where
  "example_failed_receipt =
     example_receipt ''0x0''
       [\<lparr> solanaTransactionIsSuccess = False, solanaTransactionSignature = ''A'' \<rparr>,
        \<lparr> solanaTransactionIsSuccess = True, solanaTransactionSignature = ''C'' \<rparr>,
        \<lparr> solanaTransactionIsSuccess = False, solanaTransactionSignature = ''B'' \<rparr>]"




section \<open>Properties of the debugger\<close>

lemma hex_text_example_hash: "hex_text example_hash"
  by (simp add: example_hash_def is_hex_digit_def)

lemma py_int16_5208: "py_int16 ''0x5208'' = Some 21000"
  by (simp add: py_int16_def strip_sign_def py_isspace_def is_hex_digit_def
        hex_digit_value_def)



text \<open>
  C6. When the body answered to \<^verbatim>\<open>neon_getTransactionReceipt\<close> has no \<^verbatim>\<open>result\<close> field,
  the debugger prints the diagnostic with the body and returns normally; the request
  itself is its only call: no transaction lookup, no Solana lookup, no file.
\<close>

theorem debug_transaction_no_result:
  assumes "neon_getTransactionReceipt w operator_url tx_hash = NoResult body"
  shows "debug_transaction w tx_hash operator_url solana_url =
           ([NeonGetTransactionReceipt operator_url tx_hash,
             Print (''Got a problem with transaction info:  '' @ body)], Returned)"
  using assms by (simp add: debug_transaction_def)

theorem debug_transaction_no_result_witness:
  "neon_getTransactionReceipt (example_world (NoResult ''{}'') 21000)
       ''http://alpha'' example_hash = NoResult ''{}''
   \<and> debug_transaction (example_world (NoResult ''{}'') 21000)
         example_hash ''http://alpha'' ''http://sol'' =
       ([NeonGetTransactionReceipt ''http://alpha'' example_hash,
         Print ''Got a problem with transaction info:  {}''], Returned)"
  using debug_transaction_no_result
    [of "example_world (NoResult ''{}'') 21000" "''http://alpha''" example_hash "''{}''"
        "''http://sol''"]
  by (simp add: example_world_def)



lemma str_nat_0: "str_nat 0 = ''0''" by code_simp
lemma str_nat_1: "str_nat (Suc 0) = ''1''" by code_simp
lemma str_nat_2: "str_nat (Suc (Suc 0)) = ''2''" by code_simp
lemma str_nat_3: "str_nat (Suc (Suc (Suc 0))) = ''3''" by code_simp

text \<open>
  C4. When the extended receipt reports success (its status is not \<^verbatim>\<open>0x0\<close>), the debugger
  never looks a transaction up on the settlement chain and never writes a file, whatever
  else happens; and when the top-level report can be printed (the hash is hexadecimal,
  the endpoint knows the transaction, \<^verbatim>\<open>gasUsed\<close> is a hexadecimal numeral, the division
  is defined), the debugger prints its three lines and returns at once.
\<close>

theorem success_short_circuits:
  assumes "neon_getTransactionReceipt w operator_url tx_hash = Result tx_info"
    and "status tx_info \<noteq> ''0x0''"
  shows "filter is_sol_lookup (fst (debug_transaction w tx_hash operator_url solana_url)) = []
       \<and> filter is_file_write (fst (debug_transaction w tx_hash operator_url solana_url)) = []
       \<and> (hex_text tx_hash \<and> eth_get_transaction w operator_url tx_hash = Some tx
            \<and> py_int16 (gasUsed tx_info) = Some gas_used
            \<and> gas tx \<noteq> 0 \<and> \<not> true_div_overflows gas_used (gas tx) \<longrightarrow>
          debug_transaction w tx_hash operator_url solana_url =
            ([NeonGetTransactionReceipt operator_url tx_hash,
              EthGetTransaction operator_url tx_hash,
              Print ''Status: Success'',
              PrintGas (gas tx) gas_used,
              Print (''Solana transactions: ''
                       @ str_nat (length (solanaTransactions tx_info)))],
             Returned))"
  using assms
  by (auto simp: debug_transaction_def Let_def split: option.splits)

theorem success_short_circuits_witness:
  "neon_getTransactionReceipt (example_world (Result (example_receipt ''0x1'' [])) 30000)
       ''http://alpha'' example_hash = Result (example_receipt ''0x1'' [])
   \<and> status (example_receipt ''0x1'' []) \<noteq> ''0x0''
   \<and> hex_text example_hash
   \<and> eth_get_transaction (example_world (Result (example_receipt ''0x1'' [])) 30000)
       ''http://alpha'' example_hash = Some \<lparr> gas = 30000 \<rparr>
   \<and> py_int16 (gasUsed (example_receipt ''0x1'' [])) = Some 21000
   \<and> gas \<lparr> gas = 30000 \<rparr> \<noteq> 0 \<and> \<not> true_div_overflows 21000 (gas \<lparr> gas = 30000 \<rparr>)
   \<and> debug_transaction (example_world (Result (example_receipt ''0x1'' [])) 30000)
        example_hash ''http://alpha'' ''http://sol'' =
        ([NeonGetTransactionReceipt ''http://alpha'' example_hash,
          EthGetTransaction ''http://alpha'' example_hash,
          Print ''Status: Success'', PrintGas 30000 21000,
          Print ''Solana transactions: 0''], Returned)"
  using success_short_circuits
      [of "example_world (Result (example_receipt ''0x1'' [])) 30000" "''http://alpha''"
          example_hash "example_receipt ''0x1'' []" "''http://sol''" "\<lparr> gas = 30000 \<rparr>" 21000]
    hex_text_example_hash py_int16_5208 str_nat_0
  by (simp add: example_world_def example_receipt_def true_div_overflows_def)

lemma failed_signatures_all_success:
  "list_all solanaTransactionIsSuccess (solanaTransactions tx_info) \<Longrightarrow> failed_signatures tx_info = []"
  by (simp add: failed_signatures_def list_all_iff filter_empty_conv)

text \<open>
  C7. When the extended receipt reports failure (status \<^verbatim>\<open>0x0\<close>) and none of its
  sub-transactions is flagged unsuccessful, the debugger never looks a transaction up on
  the settlement chain and never writes a file; when the top-level report can be printed,
  the inconsistency diagnostic follows it and the debugger returns.
\<close>

theorem failed_without_failed_sub_transaction:
  assumes "neon_getTransactionReceipt w operator_url tx_hash = Result tx_info"
    and "status tx_info = ''0x0''"
    and "list_all solanaTransactionIsSuccess (solanaTransactions tx_info)"
  shows "filter is_sol_lookup (fst (debug_transaction w tx_hash operator_url solana_url)) = []
       \<and> filter is_file_write (fst (debug_transaction w tx_hash operator_url solana_url)) = []
       \<and> (hex_text tx_hash \<and> eth_get_transaction w operator_url tx_hash = Some tx
            \<and> py_int16 (gasUsed tx_info) = Some gas_used
            \<and> gas tx \<noteq> 0 \<and> \<not> true_div_overflows gas_used (gas tx) \<longrightarrow>
          debug_transaction w tx_hash operator_url solana_url =
            ([NeonGetTransactionReceipt operator_url tx_hash,
              EthGetTransaction operator_url tx_hash,
              Print ''Status: Failed'',
              PrintGas (gas tx) gas_used,
              Print (''Solana transactions: ''
                       @ str_nat (length (solanaTransactions tx_info))),
              Print (''Transaction '' @ tx_hash
                       @ '' is failed but no failed solana transaction found'')],
             Returned))"
  using assms(1,2) failed_signatures_all_success [OF assms(3)]
  by (auto simp: debug_transaction_def debug_failed_def Let_def split: option.splits)

theorem failed_without_failed_sub_transaction_witness:
  "neon_getTransactionReceipt
       (example_world (Result (example_receipt ''0x0''
          [\<lparr> solanaTransactionIsSuccess = True, solanaTransactionSignature = ''A'' \<rparr>])) 30000)
       ''http://alpha'' example_hash =
     Result (example_receipt ''0x0''
          [\<lparr> solanaTransactionIsSuccess = True, solanaTransactionSignature = ''A'' \<rparr>])
   \<and> status (example_receipt ''0x0''
          [\<lparr> solanaTransactionIsSuccess = True, solanaTransactionSignature = ''A'' \<rparr>]) = ''0x0''
   \<and> list_all solanaTransactionIsSuccess (solanaTransactions (example_receipt ''0x0''
          [\<lparr> solanaTransactionIsSuccess = True, solanaTransactionSignature = ''A'' \<rparr>]))
   \<and> hex_text example_hash
   \<and> py_int16 (gasUsed (example_receipt ''0x0''
          [\<lparr> solanaTransactionIsSuccess = True, solanaTransactionSignature = ''A'' \<rparr>])) = Some 21000
   \<and> gas \<lparr> gas = 30000 \<rparr> \<noteq> 0 \<and> \<not> true_div_overflows 21000 (gas \<lparr> gas = 30000 \<rparr>)
   \<and> debug_transaction
        (example_world (Result (example_receipt ''0x0''
          [\<lparr> solanaTransactionIsSuccess = True, solanaTransactionSignature = ''A'' \<rparr>])) 30000)
        example_hash ''http://alpha'' ''http://sol'' =
        ([NeonGetTransactionReceipt ''http://alpha'' example_hash,
          EthGetTransaction ''http://alpha'' example_hash,
          Print ''Status: Failed'', PrintGas 30000 21000,
          Print ''Solana transactions: 1'',
          Print (''Transaction '' @ example_hash
                   @ '' is failed but no failed solana transaction found'')], Returned)"
  using failed_without_failed_sub_transaction
      [of "example_world (Result (example_receipt ''0x0''
          [\<lparr> solanaTransactionIsSuccess = True, solanaTransactionSignature = ''A'' \<rparr>])) 30000"
          "''http://alpha''" example_hash
          "example_receipt ''0x0''
          [\<lparr> solanaTransactionIsSuccess = True, solanaTransactionSignature = ''A'' \<rparr>]"
          "''http://sol''" "\<lparr> gas = 30000 \<rparr>" 21000]
    hex_text_example_hash py_int16_5208 str_nat_1
  by (simp add: example_world_def example_receipt_def true_div_overflows_def)

lemma log_path_eq [simp]: "(log_path s = log_path t) = (s = t)"
  by (simp add: log_path_def)














lemma filter_lookup_prints [simp]:
  "filter is_sol_lookup (map (\<lambda>(tx, reason). Print (f tx reason)) reasons) = []"
  by (induction reasons) auto

lemma filter_write_prints [simp]:
  "filter is_file_write (map (\<lambda>(tx, reason). Print (f tx reason)) reasons) = []"
  by (induction reasons) auto





lemma failed_signatures_example: "failed_signatures example_failed_receipt = [''A'', ''B'']"
  by (simp add: failed_signatures_def example_failed_receipt_def example_receipt_def)


text \<open>
  C8. On a failed receipt with two flagged sub-transactions, \<open>A\<close> and \<open>B\<close>, the line
  \<^verbatim>\<open>Failed Solana transaction:\<close> names \<open>B\<close> only: the loop of line 58 rebinds the name of
  the list to its elements, and line 71 prints the last of them.
\<close>

theorem final_line_names_last_only:
  "failed_signatures example_failed_receipt = [''A'', ''B'']
   \<and> debug_transaction (example_world (Result example_failed_receipt) 30000)
        example_hash ''http://alpha'' ''http://sol'' =
       ([NeonGetTransactionReceipt ''http://alpha'' example_hash,
         EthGetTransaction ''http://alpha'' example_hash,
         Print ''Status: Failed'',
         PrintGas 30000 21000,
         Print ''Solana transactions: 3'',
         Print ''Solana failed transactions: 2'',
         SolGetTransaction ''http://sol'' ''A'',
         WriteFile ''logs/A.log''
           (''Program log: start'' @ [CHR 0x0A] @ ''Program failed: custom error 0x1''),
         SolGetTransaction ''http://sol'' ''B'',
         WriteFile ''logs/B.log''
           (''Program log: transfer'' @ [CHR 0x0A] @ ''insufficient funds''),
         Print ''Failed Solana transaction: B'',
         Print ''Reasons:'',
         Print ''    A: Program failed: custom error 0x1'',
         Print ''    B: insufficient funds'',
         Print (''Full log saved in '' @ [CHR 0x27] @ ''logs'' @ [CHR 0x27] @ '' folder'')],
        Returned)"
  using hex_text_example_hash py_int16_5208 failed_signatures_example str_nat_2 str_nat_3
  by (simp add: debug_transaction_def debug_failed_def example_world_def
        example_failed_receipt_def example_receipt_def example_logs_def
        true_div_overflows_def)

section \<open>Properties of the main script\<close>





lemma debugger_urls_append [simp]:
  "debugger_urls (xs @ ys) = debugger_urls xs @ debugger_urls ys"
  by (induction xs rule: debugger_urls.induct) simp_all





lemma debugger_urls_prints [simp]:
  "debugger_urls (map (\<lambda>(tx, reason). Print (f tx reason)) reasons) = []"
  by (induction reasons) auto



lemma print_logs_no_debugger_call [simp]: "debugger_urls (print_logs files) = []"
  by (induction files) (auto simp: print_logs_def)













end
